theory Spec2Isabelle
  imports Main
begin

section \<open>Path handling: the part of os.path the wrappers use\<close>

text \<open>
  The module calls \<^verbatim>\<open>os.path.dirname\<close>, \<^verbatim>\<open>os.path.basename\<close> and
  \<^verbatim>\<open>os.path.join\<close>. They are modelled after \<^verbatim>\<open>posixpath\<close>, whose separator is
  the slash the specification's own examples are written with:
  \<^verbatim>\<open>
  def basename(p):  i = p.rfind(sep) + 1; return p[i:]
  def dirname(p):   i = p.rfind(sep) + 1; head = p[:i]
                    if head and head != sep*len(head): head = head.rstrip(sep)
                    return head
  def join(a, b):   if b.startswith(sep): path = b
                    elif not a or a.endswith(sep): path = a + b
                    else: path = a + sep + b
  \<close>
\<close>

definition sep :: char where
  "sep = CHR ''/''"

definition rstrip :: "char \<Rightarrow> string \<Rightarrow> string" where
  "rstrip c p = rev (dropWhile (\<lambda>x. x = c) (rev p))"

definition os_path_basename :: "string \<Rightarrow> string" where
  "os_path_basename p = rev (takeWhile (\<lambda>x. x \<noteq> sep) (rev p))"

definition os_path_dirname :: "string \<Rightarrow> string" where
  "os_path_dirname p =
     (let head = rev (dropWhile (\<lambda>x. x \<noteq> sep) (rev p))
      in if head \<noteq> [] \<and> head \<noteq> replicate (length head) sep then rstrip sep head else head)"

definition os_path_join :: "string \<Rightarrow> string \<Rightarrow> string" where
  "os_path_join a b =
     (if b \<noteq> [] \<and> hd b = sep then b
      else if a = [] \<or> last a = sep then a @ b
      else a @ [sep] @ b)"

section \<open>Name resolution\<close>

text \<open>
  \<^verbatim>\<open>decode_names(geodatabase_name, table_name=None)\<close>: the optional argument is a
  \<open>string option\<close>; the result is the triple (geodatabase, table, full name).
\<close>

definition decode_names :: "string \<Rightarrow> string option \<Rightarrow> string \<times> string \<times> string" where
  "decode_names geodatabase_name table_name =
     (let (local_geodatabase_name, local_table_name) =
            (case table_name of
               None \<Rightarrow> (os_path_dirname geodatabase_name, os_path_basename geodatabase_name)
             | Some t \<Rightarrow> (geodatabase_name, t));
          local_full_name =
            (if local_geodatabase_name = [] then local_table_name
             else os_path_join local_geodatabase_name local_table_name)
      in (local_geodatabase_name, local_table_name, local_full_name))"

text \<open>
  \<^verbatim>\<open>parse_table_name(table_name, replacechars=None)\<close>: the dictionary maps single
  characters to strings; \<^verbatim>\<open>replacechars.get(ch, ch)\<close> keeps a character that is not a key.
\<close>

definition parse_table_name :: "string \<Rightarrow> (char \<rightharpoonup> string) option \<Rightarrow> string" where
  "parse_table_name table_name replacechars =
     (case replacechars of
        None \<Rightarrow> table_name
      | Some d \<Rightarrow> concat (map (\<lambda>ch. case d ch of None \<Rightarrow> [ch] | Some v \<Rightarrow> v) table_name))"

text \<open>The dictionary \<^verbatim>\<open>replace_list\<close> that \<^verbatim>\<open>Table.__init__\<close> passes.\<close>

definition replace_list :: "char \<rightharpoonup> string" where
  "replace_list = [CHR '' '' \<mapsto> ''_'', CHR ''.'' \<mapsto> '''']"

section \<open>The geoprocessing toolkit as seen from the wrappers\<close>

text \<open>
  \<^verbatim>\<open>arcpy\<close> is not part of the repository. The calls the wrappers make are parameters:
  a record of functions over an arbitrary toolkit state \<open>'w\<close> (the catalogue of datasets and
  whatever else the toolkit keeps). A query reads the state, a tool transforms it. Calls are
  taken to return; an exception raised inside the toolkit is not this layer's behaviour.
  Python values that are passed through without being inspected are a \<open>pyval\<close>.
\<close>

datatype pyval =
    PyNone
  | PyBool bool
  | PyInt int
  | PyStr string
  | PyTuple "pyval list"
  | PyObject string

record 'w arcpy =
  Exists :: "string \<Rightarrow> 'w \<Rightarrow> bool"
  Delete_management :: "string \<Rightarrow> 'w \<Rightarrow> 'w"
  CreateUniqueName :: "string \<Rightarrow> string \<Rightarrow> 'w \<Rightarrow> string"
  env_scratchGDB :: string
  env_scratchFolder :: string
  BuildOverviews_management :: "string \<Rightarrow> string list \<Rightarrow> 'w \<Rightarrow> 'w"
  MakeMosaicLayer_management :: "string \<Rightarrow> string \<Rightarrow> 'w \<Rightarrow> 'w"
  MakeFeatureLayer_management :: "string \<Rightarrow> string \<Rightarrow> string \<Rightarrow> 'w \<Rightarrow> 'w"
  SelectLayerByAttribute_management :: "string \<Rightarrow> string \<Rightarrow> string \<Rightarrow> 'w \<Rightarrow> 'w"
  GetCount_management :: "string \<Rightarrow> 'w \<Rightarrow> int"
  ExportMosaicDatasetPaths_management :: "string \<Rightarrow> string \<Rightarrow> string list \<Rightarrow> 'w \<Rightarrow> 'w"
  DeleteIdentical_management :: "string \<Rightarrow> string \<Rightarrow> 'w \<Rightarrow> 'w"
  da_SearchCursor :: "string \<Rightarrow> string \<Rightarrow> 'w \<Rightarrow> string list"
  da_UpdateCursor :: "string \<Rightarrow> pyval list \<Rightarrow> 'w \<Rightarrow> pyval"

text \<open>
  What the wrappers ask of the toolkit and what they report is recorded, in order, so that
  "requests a deletion" and "emits a message" are observable.
\<close>

datatype event =
    Exists_call string
  | Delete_management_call string
  | CreateUniqueName_call string string
  | AddError string
  | AddWarning string
  | AddMessage string
  | logging_info string
  | print_call string
  | print_GetMessages
  | BuildOverviews_management_call string "string list"
  | MakeMosaicLayer_management_call string string
  | MakeFeatureLayer_management_call string string string
  | SelectLayerByAttribute_management_call string string string
  | GetCount_management_call string
  | ExportMosaicDatasetPaths_management_call string string "string list"
  | DeleteIdentical_management_call string string
  | da_SearchCursor_call string string
  | da_UpdateCursor_call string "pyval list"

record 'w session =
  world :: 'w
  trace :: "event list"

datatype exn = ExecuteError | NameError string | TypeError string | AttributeError string

definition emit :: "event \<Rightarrow> 'w session \<Rightarrow> 'w session" where
  "emit e s = s\<lparr>trace := trace s @ [e]\<rparr>"

definition run_tool :: "event \<Rightarrow> ('w \<Rightarrow> 'w) \<Rightarrow> 'w session \<Rightarrow> 'w session" where
  "run_tool e f s = emit e (s\<lparr>world := f (world s)\<rparr>)"

definition arcpy_Exists :: "'w arcpy \<Rightarrow> string \<Rightarrow> 'w session \<Rightarrow> bool \<times> 'w session" where
  "arcpy_Exists A p s = (Exists A p (world s), emit (Exists_call p) s)"

definition arcpy_Delete_management :: "'w arcpy \<Rightarrow> string \<Rightarrow> 'w session \<Rightarrow> 'w session" where
  "arcpy_Delete_management A p s = run_tool (Delete_management_call p) (Delete_management A p) s"

definition arcpy_CreateUniqueName ::
  "'w arcpy \<Rightarrow> string \<Rightarrow> string \<Rightarrow> 'w session \<Rightarrow> string \<times> 'w session" where
  "arcpy_CreateUniqueName A base_name workspace s =
     (CreateUniqueName A base_name workspace (world s), emit (CreateUniqueName_call base_name workspace) s)"

text \<open>The module globals \<^verbatim>\<open>log = False\<close> and \<^verbatim>\<open>std_out = True\<close>, and \<^verbatim>\<open>output_msg\<close>.\<close>

definition log :: bool where
  "log = False"

definition std_out :: bool where
  "std_out = True"

definition output_msg :: "string \<Rightarrow> 'w session \<Rightarrow> 'w session" where
  "output_msg msg s =
     (let s1 = (if log then emit (logging_info msg) s else s)
      in if std_out then emit print_GetMessages (emit (AddMessage msg) s1) else s1)"

text \<open>
  \<^verbatim>\<open>initialize_names(geodatabase_name, table_name=None, temptable=False, scratch=None,
  replacechars=None)\<close>. \<^verbatim>\<open>if table_name\<close> is false for \<^verbatim>\<open>None\<close> and for the empty string.
\<close>

definition initialize_names ::
  "'w arcpy \<Rightarrow> string \<Rightarrow> string option \<Rightarrow> bool \<Rightarrow> string option \<Rightarrow> (char \<rightharpoonup> string) option
     \<Rightarrow> 'w session \<Rightarrow> (string \<times> string \<times> string) \<times> 'w session" where
  "initialize_names A geodatabase_name table_name temptable scratch replacechars s =
     (if temptable then
        (let (local_geodatabase_name, local_table_name, local_full_name) =
               decode_names geodatabase_name table_name;
             local_geodatabase_name =
               (if local_geodatabase_name = []
                then (case scratch of None \<Rightarrow> env_scratchGDB A | Some d \<Rightarrow> d)
                else local_geodatabase_name);
             local_table_name = parse_table_name local_table_name replacechars;
             (unique, s') = arcpy_CreateUniqueName A local_table_name local_geodatabase_name s
         in (decode_names unique None, s'))
      else
        (let local_table_name =
               (case table_name of
                  None \<Rightarrow> None
                | Some t \<Rightarrow> if t \<noteq> [] then Some (parse_table_name t replacechars) else None)
         in (decode_names geodatabase_name local_table_name, s)))"

section \<open>The elapsed-time formatter\<close>

text \<open>
  \<^verbatim>\<open>"{}".format(n)\<close> of an integer is its decimal numeral, with a minus sign when negative.
\<close>

definition digit_char :: "nat \<Rightarrow> char" where
  "digit_char d = ''0123456789'' ! d"

function str_nat :: "nat \<Rightarrow> string" where
  "str_nat n = (if n < 10 then [digit_char n] else str_nat (n div 10) @ [digit_char (n mod 10)])"
  by pat_completeness auto
termination
  by (relation "measure id") auto

definition str :: "int \<Rightarrow> string" where
  "str i = (if i < 0 then CHR ''-'' # str_nat (nat (- i)) else str_nat (nat i))"




section \<open>Table, FeatureClass and their temporary variants\<close>

text \<open>
  An instance carries the attributes \<^verbatim>\<open>__init__\<close> assigns. A method takes the instance and
  the session and returns its result with the session; a method that can raise returns
  \<open>exn + _\<close>. \<^verbatim>\<open>FeatureClass\<close> inherits from \<^verbatim>\<open>Table\<close> and adds no attribute.
\<close>

record Table =
  geodatabase_name :: string
  table_name :: string
  full_name :: string
  temp_table :: bool

definition Table_exists :: "'w arcpy \<Rightarrow> Table \<Rightarrow> 'w session \<Rightarrow> bool \<times> 'w session" where
  "Table_exists A self s = arcpy_Exists A (Table.full_name self) s"

definition Table_delete :: "'w arcpy \<Rightarrow> Table \<Rightarrow> 'w session \<Rightarrow> bool \<times> 'w session" where
  "Table_delete A self s =
     (let (e1, s1) = Table_exists A self s
      in if e1 then
           (let s2 = arcpy_Delete_management A (Table.full_name self) s1;
                (e2, s3) = Table_exists A self s2
            in if e2 then (False, emit (AddError (Table.full_name self @ '' cannot be deleted'')) s3)
               else (True, output_msg (''Deleted: ['' @ Table.full_name self @ ''] '') s3))
         else (True, s1))"

definition Table_init ::
  "'w arcpy \<Rightarrow> string \<Rightarrow> string option \<Rightarrow> bool \<Rightarrow> 'w session \<Rightarrow> (exn + Table) \<times> 'w session" where
  "Table_init A geodatabase_name' table_name' temp_table' s =
     (let ((g, t, f), s1) =
            initialize_names A geodatabase_name' table_name' temp_table'
              (Some (env_scratchGDB A)) (Some replace_list) s;
          self = \<lparr>Table.geodatabase_name = g, table_name = t, full_name = f, temp_table = temp_table'\<rparr>
      in if Table.temp_table self then
           (let (ok, s2) = Table_delete A self s1
            in if ok = False then (Inl ExecuteError, s2) else (Inr self, s2))
         else (Inr self, s1))"



text \<open>\<^verbatim>\<open>TempTable(table_name=None)\<close> passes its name as the first positional argument.\<close>

definition TempTable_init :: "'w arcpy \<Rightarrow> string option \<Rightarrow> 'w session \<Rightarrow> (exn + Table) \<times> 'w session" where
  "TempTable_init A table_name' s =
     Table_init A (case table_name' of None \<Rightarrow> ''TempTable'' | Some n \<Rightarrow> n) None True s"



definition FeatureClass_init ::
  "'w arcpy \<Rightarrow> string \<Rightarrow> string option \<Rightarrow> bool \<Rightarrow> 'w session \<Rightarrow> (exn + Table) \<times> 'w session" where
  "FeatureClass_init A geodatabase_name' table_name' temp_table' s =
     Table_init A geodatabase_name' table_name' temp_table' s"

definition FeatureClass_exit :: "'w arcpy \<Rightarrow> Table \<Rightarrow> 'w session \<Rightarrow> 'w session" where
  "FeatureClass_exit A self s = (if Table.temp_table self then snd (Table_delete A self s) else s)"


definition TempFeatureClass_init ::
  "'w arcpy \<Rightarrow> string option \<Rightarrow> 'w session \<Rightarrow> (exn + Table) \<times> 'w session" where
  "TempFeatureClass_init A table_name' s =
     FeatureClass_init A (case table_name' of None \<Rightarrow> ''TempFeatureClass'' | Some n \<Rightarrow> n) None True s"

definition TempFeatureClass_exit :: "'w arcpy \<Rightarrow> Table \<Rightarrow> 'w session \<Rightarrow> 'w session" where
  "TempFeatureClass_exit A self s = FeatureClass_exit A self s"


section \<open>Raster\<close>

record Raster =
  geodatabase_name :: string
  raster_name :: string
  full_name :: string
  temp_raster :: bool

definition Raster_exists :: "'w arcpy \<Rightarrow> Raster \<Rightarrow> 'w session \<Rightarrow> bool \<times> 'w session" where
  "Raster_exists A self s = arcpy_Exists A (Raster.full_name self) s"

definition Raster_delete :: "'w arcpy \<Rightarrow> Raster \<Rightarrow> 'w session \<Rightarrow> bool \<times> 'w session" where
  "Raster_delete A self s =
     (let (e1, s1) = Raster_exists A self s
      in if e1 then
           (let s2 = arcpy_Delete_management A (Raster.full_name self) s1;
                (e2, s3) = Raster_exists A self s2
            in if e2 then
                 (False, emit (AddError (''Raster '' @ Raster.full_name self @ '' cannot be deleted'')) s3)
               else (True, output_msg (''Deleted: ['' @ Raster.full_name self @ ''] '') s3))
         else (True, s1))"

text \<open>
  \<^verbatim>\<open>Raster.__init__\<close> calls \<^verbatim>\<open>self.delete()\<close> as a statement: the result is dropped and
  nothing is raised.
\<close>

definition Raster_init ::
  "'w arcpy \<Rightarrow> string \<Rightarrow> string option \<Rightarrow> bool \<Rightarrow> 'w session \<Rightarrow> (exn + Raster) \<times> 'w session" where
  "Raster_init A geodatabase_name' raster_name' temp_raster' s =
     (let ((g, t, f), s1) =
            initialize_names A geodatabase_name' raster_name' temp_raster'
              (Some (env_scratchFolder A)) None s;
          self = \<lparr>Raster.geodatabase_name = g, raster_name = t, full_name = f, temp_raster = temp_raster'\<rparr>
      in if Raster.temp_raster self then
           (let (ok, s2) = Raster_delete A self s1 in (Inr self, s2))
         else (Inr self, s1))"



definition TempRaster_init :: "'w arcpy \<Rightarrow> string option \<Rightarrow> 'w session \<Rightarrow> (exn + Raster) \<times> 'w session" where
  "TempRaster_init A raster_name' s =
     Raster_init A (case raster_name' of None \<Rightarrow> ''TempRaster'' | Some n \<Rightarrow> n) None True s"



section \<open>Names inside a method body\<close>

text \<open>
  A name that a function body reads and never assigns is looked up among the parameters,
  then in the module's globals, then in the builtins; a name bound in none of them raises
  \<^verbatim>\<open>NameError\<close>. \<open>module_names\<close> lists what the module binds at top level (its imports,
  assignments, functions and classes, in source order, after the names every module has);
  \<open>builtin_names\<close> lists the builtin functions, constants and exception classes.
\<close>

definition module_names :: "string list" where
  "module_names =
     [''__name__'', ''__doc__'', ''__package__'', ''__loader__'', ''__spec__'', ''__file__'',
      ''__cached__'', ''__builtins__'',
      ''arcpy'', ''os'', ''logging'', ''datetime'', ''time'', ''pd'', ''subprocess'', ''tempfile'',
      ''log'', ''std_out'', ''WMAS_ProjCS'',
      ''timer'', ''output_msg'', ''set_logging'', ''decode_names'', ''parse_table_name'',
      ''initialize_names'', ''Timer'', ''Table'', ''TempTable'', ''FeatureClass'',
      ''TempFeatureClass'', ''Raster'', ''TempRaster'', ''FeatureLayer'', ''MosaicLayer'',
      ''MosaicDataset'', ''TempMosaicDataset'', ''Progressor'']"

definition builtin_names :: "string list" where
  "builtin_names =
     [''abs'', ''aiter'', ''all'', ''anext'', ''any'', ''ascii'', ''bin'', ''bool'', ''breakpoint'',
      ''bytearray'', ''bytes'', ''callable'', ''chr'', ''classmethod'', ''compile'', ''complex'',
      ''delattr'', ''dict'', ''dir'', ''divmod'', ''enumerate'', ''eval'', ''exec'', ''filter'',
      ''float'', ''format'', ''frozenset'', ''getattr'', ''globals'', ''hasattr'', ''hash'', ''help'',
      ''hex'', ''id'', ''input'', ''int'', ''isinstance'', ''issubclass'', ''iter'', ''len'', ''list'',
      ''locals'', ''map'', ''max'', ''memoryview'', ''min'', ''next'', ''object'', ''oct'', ''open'',
      ''ord'', ''pow'', ''print'', ''property'', ''range'', ''repr'', ''reversed'', ''round'', ''set'',
      ''setattr'', ''slice'', ''sorted'', ''staticmethod'', ''str'', ''sum'', ''super'', ''tuple'',
      ''type'', ''vars'', ''zip'', ''__import__'', ''__build_class__'', ''__debug__'',
      ''None'', ''True'', ''False'', ''Ellipsis'', ''NotImplemented'',
      ''copyright'', ''credits'', ''license'', ''exit'', ''quit'',
      ''BaseException'', ''BaseExceptionGroup'', ''Exception'', ''ExceptionGroup'',
      ''GeneratorExit'', ''KeyboardInterrupt'', ''SystemExit'', ''StopIteration'',
      ''StopAsyncIteration'', ''ArithmeticError'', ''AssertionError'', ''AttributeError'',
      ''BufferError'', ''EOFError'', ''ImportError'', ''ModuleNotFoundError'', ''LookupError'',
      ''IndexError'', ''KeyError'', ''MemoryError'', ''NameError'', ''UnboundLocalError'',
      ''OSError'', ''EnvironmentError'', ''IOError'', ''WindowsError'', ''BlockingIOError'',
      ''ChildProcessError'', ''ConnectionError'', ''BrokenPipeError'', ''ConnectionAbortedError'',
      ''ConnectionRefusedError'', ''ConnectionResetError'', ''FileExistsError'',
      ''FileNotFoundError'', ''InterruptedError'', ''IsADirectoryError'', ''NotADirectoryError'',
      ''PermissionError'', ''ProcessLookupError'', ''TimeoutError'', ''ReferenceError'',
      ''RuntimeError'', ''NotImplementedError'', ''RecursionError'', ''SyntaxError'',
      ''IndentationError'', ''TabError'', ''SystemError'', ''TypeError'', ''ValueError'',
      ''UnicodeError'', ''UnicodeDecodeError'', ''UnicodeEncodeError'', ''UnicodeTranslateError'',
      ''FloatingPointError'', ''OverflowError'', ''ZeroDivisionError'',
      ''Warning'', ''BytesWarning'', ''DeprecationWarning'', ''EncodingWarning'', ''FutureWarning'',
      ''ImportWarning'', ''PendingDeprecationWarning'', ''ResourceWarning'', ''RuntimeWarning'',
      ''SyntaxWarning'', ''UnicodeWarning'', ''UserWarning'']"

definition load_name :: "(string \<times> pyval) list \<Rightarrow> string \<Rightarrow> exn + pyval" where
  "load_name params n =
     (case map_of params n of
        Some v \<Rightarrow> Inr v
      | None \<Rightarrow>
          if n \<in> set module_names \<or> n \<in> set builtin_names then Inr (PyObject n)
          else Inl (NameError n))"

text \<open>
  \<^verbatim>\<open>Table.update_cursor(self, ufields, where_clause=None, spatial_reference=None,
  explode_to_points=False, sql_clause=(None,None), **kwargs)\<close>, after its arguments are
  bound. Its one statement returns
  \<^verbatim>\<open>arcpy.da.UpdateCursor(self.full_name, field_names, where_clause, ...)\<close>: the arguments
  are evaluated left to right before the call is made.
\<close>

definition update_cursor ::
  "'w arcpy \<Rightarrow> Table \<Rightarrow> pyval \<Rightarrow> pyval \<Rightarrow> pyval \<Rightarrow> pyval \<Rightarrow> pyval \<Rightarrow> (string \<times> pyval) list
     \<Rightarrow> 'w session \<Rightarrow> (exn + pyval) \<times> 'w session" where
  "update_cursor A self ufields where_clause spatial_reference explode_to_points sql_clause kwargs s =
     (let params =
            [(''self'', PyObject ''self''), (''ufields'', ufields), (''where_clause'', where_clause),
             (''spatial_reference'', spatial_reference), (''explode_to_points'', explode_to_points),
             (''sql_clause'', sql_clause), (''kwargs'', PyTuple (map (\<lambda>(k, v). PyTuple [PyStr k, v]) kwargs))]
      in case load_name params ''arcpy'' of
           Inl e \<Rightarrow> (Inl e, s)
         | Inr _ \<Rightarrow>
      (case load_name params ''self'' of
           Inl e \<Rightarrow> (Inl e, s)
         | Inr _ \<Rightarrow>
      (case load_name params ''field_names'' of
           Inl e \<Rightarrow> (Inl e, s)
         | Inr a1 \<Rightarrow>
      (case load_name params ''where_clause'' of
           Inl e \<Rightarrow> (Inl e, s)
         | Inr a2 \<Rightarrow>
      (case load_name params ''spatial_reference'' of
           Inl e \<Rightarrow> (Inl e, s)
         | Inr a3 \<Rightarrow>
      (case load_name params ''explode_to_points'' of
           Inl e \<Rightarrow> (Inl e, s)
         | Inr a4 \<Rightarrow>
      (case load_name params ''sql_clause'' of
           Inl e \<Rightarrow> (Inl e, s)
         | Inr a5 \<Rightarrow>
      (case load_name params ''kwargs'' of
           Inl e \<Rightarrow> (Inl e, s)
         | Inr kw \<Rightarrow>
             (let args = [a1, a2, a3, a4, a5, kw]
              in (Inr (da_UpdateCursor A (Table.full_name self) args (world s)),
                  emit (da_UpdateCursor_call (Table.full_name self) args) s))))))))))"

section \<open>Feature layers and mosaic layers\<close>

text \<open>
  \<^verbatim>\<open>FeatureLayer\<close> inherits from \<^verbatim>\<open>FeatureClass\<close>: the inherited attributes are the
  field \<open>base\<close>. It overrides \<^verbatim>\<open>get_count\<close>, which the inherited
  \<^verbatim>\<open>select_by_attribute\<close> calls through \<^verbatim>\<open>self\<close>.
\<close>

record FeatureLayer =
  base :: Table
  layer_name :: string

definition FeatureLayer_init ::
  "'w arcpy \<Rightarrow> string \<Rightarrow> string \<Rightarrow> string \<Rightarrow> 'w session \<Rightarrow> (exn + FeatureLayer) \<times> 'w session" where
  "FeatureLayer_init A layer_name' in_features where_clause s =
     (case FeatureClass_init A layer_name' None False s of
        (Inl e, s1) \<Rightarrow> (Inl e, s1)
      | (Inr t, s1) \<Rightarrow>
          (let self = \<lparr>base = t, layer_name = layer_name'\<rparr>
           in if in_features = [] then
                (let (e, s2) = Table_exists A t s1
                 in if \<not> e then
                      (Inl ExecuteError, emit (AddError (''Layer '' @ layer_name' @ '' does not exist'')) s2)
                    else (Inr self, s2))
              else
                (Inr self,
                 run_tool (MakeFeatureLayer_management_call in_features layer_name' where_clause)
                   (MakeFeatureLayer_management A in_features layer_name' where_clause) s1)))"

definition FeatureLayer_get_count :: "'w arcpy \<Rightarrow> FeatureLayer \<Rightarrow> 'w session \<Rightarrow> int \<times> 'w session" where
  "FeatureLayer_get_count A self s =
     (GetCount_management A (FeatureLayer.layer_name self) (world s),
      emit (GetCount_management_call (FeatureLayer.layer_name self)) s)"

definition FeatureLayer_select_by_attribute ::
  "'w arcpy \<Rightarrow> FeatureLayer \<Rightarrow> string \<Rightarrow> string \<Rightarrow> 'w session \<Rightarrow> int \<times> 'w session" where
  "FeatureLayer_select_by_attribute A self selection_type where_clause s =
     (let p = Table.full_name (base self);
          s1 = run_tool (SelectLayerByAttribute_management_call p selection_type where_clause)
                 (SelectLayerByAttribute_management A p selection_type where_clause) s;
          s2 = output_msg (''SelectLayerByAttribute called on '' @ p) s1
      in FeatureLayer_get_count A self s2)"

record MosaicLayer =
  layer_name :: string
  feature_layer :: FeatureLayer

definition MosaicLayer_init ::
  "'w arcpy \<Rightarrow> string \<Rightarrow> string \<Rightarrow> 'w session \<Rightarrow> (exn + MosaicLayer) \<times> 'w session" where
  "MosaicLayer_init A layer_name' mosaic_name' s =
     (let s1 = run_tool (MakeMosaicLayer_management_call mosaic_name' layer_name')
                 (MakeMosaicLayer_management A mosaic_name' layer_name') s
      in case FeatureLayer_init A (os_path_join layer_name' ''Footprint'') [] [] s1 of
           (Inl e, s2) \<Rightarrow> (Inl e, s2)
         | (Inr fl, s2) \<Rightarrow> (Inr \<lparr>MosaicLayer.layer_name = layer_name', feature_layer = fl\<rparr>, s2))"

definition MosaicLayer_select_by_attribute ::
  "'w arcpy \<Rightarrow> MosaicLayer \<Rightarrow> string \<Rightarrow> string \<Rightarrow> 'w session \<Rightarrow> int \<times> 'w session" where
  "MosaicLayer_select_by_attribute A self selection_type where_clause s =
     FeatureLayer_select_by_attribute A (feature_layer self) selection_type where_clause s"

section \<open>MosaicDataset\<close>

record MosaicDataset =
  temp_mosaic :: bool
  mosaic_layer :: "MosaicLayer option"
  geodatabase_name :: string
  mosaic_name :: string
  full_name :: string

definition MosaicDataset_exists :: "'w arcpy \<Rightarrow> MosaicDataset \<Rightarrow> 'w session \<Rightarrow> bool \<times> 'w session" where
  "MosaicDataset_exists A self s = arcpy_Exists A (MosaicDataset.full_name self) s"

definition MosaicDataset_delete :: "'w arcpy \<Rightarrow> MosaicDataset \<Rightarrow> 'w session \<Rightarrow> bool \<times> 'w session" where
  "MosaicDataset_delete A self s =
     (let (e1, s1) = MosaicDataset_exists A self s
      in if e1 then
           (let s2 = arcpy_Delete_management A (MosaicDataset.full_name self) s1;
                (e2, s3) = MosaicDataset_exists A self s2
            in if e2 then
                 (False,
                  emit (AddError (''Mosaic '' @ MosaicDataset.full_name self @ '' cannot be deleted'')) s3)
               else
                 (True,
                  output_msg (''Deleted mosaic dataset: ['' @ MosaicDataset.full_name self @ ''] '') s3))
         else (True, s1))"

definition MosaicDataset_init ::
  "'w arcpy \<Rightarrow> string \<Rightarrow> string option \<Rightarrow> bool \<Rightarrow> 'w session \<Rightarrow> (exn + MosaicDataset) \<times> 'w session" where
  "MosaicDataset_init A geodatabase_name' mosaic_name' temp_mosaic' s =
     (let ((g, t, f), s1) =
            initialize_names A geodatabase_name' mosaic_name' temp_mosaic'
              (Some (env_scratchGDB A)) None s;
          self = \<lparr>temp_mosaic = temp_mosaic', mosaic_layer = None,
                  geodatabase_name = g, mosaic_name = t, full_name = f\<rparr>
      in if temp_mosaic self then
           (let (ok, s2) = MosaicDataset_delete A self s1
            in if ok = False then (Inl ExecuteError, s2) else (Inr self, s2))
         else (Inr self, s1))"



definition TempMosaicDataset_init ::
  "'w arcpy \<Rightarrow> string option \<Rightarrow> 'w session \<Rightarrow> (exn + MosaicDataset) \<times> 'w session" where
  "TempMosaicDataset_init A mosaic_name' s =
     MosaicDataset_init A (case mosaic_name' of None \<Rightarrow> ''TempMosaic'' | Some n \<Rightarrow> n) None True s"



definition create_layer ::
  "'w arcpy \<Rightarrow> MosaicDataset \<Rightarrow> 'w session \<Rightarrow> (exn + MosaicLayer) \<times> MosaicDataset \<times> 'w session" where
  "create_layer A self s =
     (case mosaic_layer self of
        Some l \<Rightarrow> (Inr l, self, s)
      | None \<Rightarrow>
          (case MosaicLayer_init A (mosaic_name self @ ''_Layer'') (MosaicDataset.full_name self) s of
             (Inl e, s1) \<Rightarrow> (Inl e, self, s1)
           | (Inr l, s1) \<Rightarrow> (Inr l, self\<lparr>mosaic_layer := Some l\<rparr>, s1)))"

definition export_paths ::
  "'w arcpy \<Rightarrow> MosaicDataset \<Rightarrow> Table \<Rightarrow> string \<Rightarrow> string \<Rightarrow> string \<Rightarrow> 'w session \<Rightarrow> 'w session" where
  "export_paths A self out_table where_clause export_mode types_of_paths s =
     (let opts = [where_clause, export_mode, types_of_paths];
          s1 = run_tool
                 (ExportMosaicDatasetPaths_management_call (MosaicDataset.full_name self)
                    (Table.full_name out_table) opts)
                 (ExportMosaicDatasetPaths_management A (MosaicDataset.full_name self)
                    (Table.full_name out_table) opts) s
      in output_msg (''Exported file paths in mosaic dataset '' @ MosaicDataset.full_name self) s1)"

definition delete_identical :: "'w arcpy \<Rightarrow> Table \<Rightarrow> string \<Rightarrow> 'w session \<Rightarrow> 'w session" where
  "delete_identical A self fields' s =
     (let s1 = run_tool (DeleteIdentical_management_call (Table.full_name self) fields')
                 (DeleteIdentical_management A (Table.full_name self) fields') s
      in output_msg (''Deleted identical records in '' @ Table.full_name self) s1)"

section \<open>Building overviews\<close>

text \<open>
  The body of \<^verbatim>\<open>class MosaicDataset\<close> holds two statements
  \<^verbatim>\<open>def build_overviews\<close>. The first (source line 1183) counts the overviews that are
  still unbuilt and returns the count.
\<close>

definition build_overviews_1183 ::
  "'w arcpy \<Rightarrow> MosaicDataset \<Rightarrow> 'w session \<Rightarrow> (exn + pyval) \<times> MosaicDataset \<times> 'w session" where
  "build_overviews_1183 A self s =
     (case create_layer A self s of
        (Inl e, self1, s1) \<Rightarrow> (Inl e, self1, s1)
      | (Inr l, self1, s1) \<Rightarrow>
          (let (build_footprint_count, s2) =
                 MosaicLayer_select_by_attribute A l ''NEW_SELECTION'' ''Category > 2'' s1;
               s3 = emit (print_call (''Building '' @ str build_footprint_count @ '' overviews for ''
                                        @ MosaicDataset.full_name self1)) s2;
               opts = [[], ''NO_DEFINE_MISSING_TILES'', ''GENERATE_OVERVIEWS'',
                       ''GENERATE_MISSING_IMAGES'', ''REGENERATE_STALE_IMAGES''];
               s4 = run_tool (BuildOverviews_management_call (MosaicDataset.full_name self1) opts)
                      (BuildOverviews_management A (MosaicDataset.full_name self1) opts) s3;
               s5 = output_msg (''Built overviews on mosaic dataset '' @ MosaicDataset.full_name self1) s4;
               (build_footprint_count, s6) =
                 MosaicLayer_select_by_attribute A l ''NEW_SELECTION'' ''Category > 2'' s5;
               s7 = (if build_footprint_count > 0
                     then emit (AddWarning (str build_footprint_count
                                              @ '' overviews failed to build correctly'')) s6
                     else s6)
           in (Inr (PyInt build_footprint_count), self1, s7)))"

text \<open>
  The second (source line 1202) takes \<^verbatim>\<open>**kwargs\<close>, runs the tool and ends without a
  \<^verbatim>\<open>return\<close>: its result is \<^verbatim>\<open>None\<close>.
\<close>

definition build_overviews_1202 ::
  "'w arcpy \<Rightarrow> MosaicDataset \<Rightarrow> 'w session \<Rightarrow> (exn + pyval) \<times> MosaicDataset \<times> 'w session" where
  "build_overviews_1202 A self s =
     (let s1 = run_tool (BuildOverviews_management_call (MosaicDataset.full_name self) [])
                 (BuildOverviews_management A (MosaicDataset.full_name self) []) s;
          s2 = output_msg (''Built overviews on mosaic dataset '' @ MosaicDataset.full_name self) s1
      in (Inr PyNone, self, s2))"

text \<open>
  A class body runs top to bottom and each \<^verbatim>\<open>def\<close> binds its name in the class
  namespace; \<^verbatim>\<open>self.build_overviews\<close> finds whatever the name is bound to when the body
  has finished. The namespace is a map, the two statements two updates in source order.
\<close>

type_synonym 'w pymethod =
  "'w arcpy \<Rightarrow> MosaicDataset \<Rightarrow> 'w session \<Rightarrow> (exn + pyval) \<times> MosaicDataset \<times> 'w session"

definition MosaicDataset_namespace :: "string \<rightharpoonup> 'w pymethod" where
  "MosaicDataset_namespace =
     [''build_overviews'' \<mapsto> build_overviews_1183, ''build_overviews'' \<mapsto> build_overviews_1202]"

definition call_method ::
  "(string \<rightharpoonup> 'w pymethod) \<Rightarrow> string \<Rightarrow> 'w pymethod" where
  "call_method ns name A self s =
     (case ns name of
        None \<Rightarrow> (Inl (AttributeError name), self, s)
      | Some m \<Rightarrow> m A self s)"

text \<open>
  \<^verbatim>\<open>delete_bad_overviews\<close>: the body of the \<^verbatim>\<open>for\<close> loop, the loop over the rows the
  cursor yields, and the method. Leaving the \<^verbatim>\<open>with\<close> block runs
  \<^verbatim>\<open>TempFeatureClass.__exit__\<close>.
\<close>

definition arcpy_da_SearchCursor ::
  "'w arcpy \<Rightarrow> string \<Rightarrow> string \<Rightarrow> 'w session \<Rightarrow> string list \<times> 'w session" where
  "arcpy_da_SearchCursor A p field s =
     (da_SearchCursor A p field (world s), emit (da_SearchCursor_call p field) s)"

definition delete_bad_overview :: "'w arcpy \<Rightarrow> string \<Rightarrow> 'w session \<Rightarrow> 'w session" where
  "delete_bad_overview A bad_overview s =
     (let (e, s1) = arcpy_Exists A bad_overview s
      in if e then
           (let s2 = emit (AddWarning (''Deleting '' @ bad_overview)) s1;
                s3 = arcpy_Delete_management A bad_overview s2
            in output_msg (''Deleted '' @ bad_overview) s3)
         else emit (AddWarning (''Overview '' @ bad_overview @ '' not found'')) s1)"

fun for_bad_overviews :: "'w arcpy \<Rightarrow> string list \<Rightarrow> 'w session \<Rightarrow> 'w session" where
  "for_bad_overviews A [] s = s"
| "for_bad_overviews A (bad_overview # bad_overviews) s =
     for_bad_overviews A bad_overviews (delete_bad_overview A bad_overview s)"

definition delete_bad_overviews ::
  "'w arcpy \<Rightarrow> MosaicDataset \<Rightarrow> 'w session \<Rightarrow> (exn + unit) \<times> 'w session" where
  "delete_bad_overviews A self s =
     (case TempFeatureClass_init A (Some ''BadOverviews'') s of
        (Inl e, s1) \<Rightarrow> (Inl e, s1)
      | (Inr tmp_table, s1) \<Rightarrow>
          (let s2 = export_paths A self tmp_table ''Category > 2'' ''ALL'' ''RASTER'' s1;
               s3 = delete_identical A tmp_table ''SourceID'' s2;
               (bad_overviews, s4) = arcpy_da_SearchCursor A (Table.full_name tmp_table) ''Path'' s3;
               s5 = for_bad_overviews A bad_overviews s4
           in (Inr (), TempFeatureClass_exit A tmp_table s5)))"

text \<open>
  \<^verbatim>\<open>x > 0\<close> for what \<^verbatim>\<open>build_overviews\<close> can return: integers and booleans compare,
  anything else against an integer raises \<^verbatim>\<open>TypeError\<close>.
\<close>

definition py_gt :: "pyval \<Rightarrow> int \<Rightarrow> exn + bool" where
  "py_gt v n =
     (case v of
        PyInt i \<Rightarrow> Inr (i > n)
      | PyBool b \<Rightarrow> Inr ((if b then 1 else 0) > n)
      | _ \<Rightarrow> Inl (TypeError ''> not supported between these instances''))"

text \<open>
  \<^verbatim>\<open>build_overviews_robust(self, max_retries=5)\<close>. The \<^verbatim>\<open>while\<close> loop is
  \<open>robust_while\<close>: its condition evaluates \<^verbatim>\<open>unbuilt_overview_count > 0\<close> first and
  \<^verbatim>\<open>retry_count < max_retries\<close> only when that is true. The class namespace \<open>ns\<close> is
  what \<^verbatim>\<open>self.build_overviews\<close> is looked up in.
\<close>

function robust_while ::
  "(string \<rightharpoonup> 'w pymethod) \<Rightarrow> 'w arcpy \<Rightarrow> int \<Rightarrow> int \<Rightarrow> pyval \<Rightarrow> MosaicDataset \<Rightarrow> 'w session
     \<Rightarrow> (exn + pyval) \<times> MosaicDataset \<times> 'w session" where
  "robust_while ns A max_retries retry_count unbuilt_overview_count self s =
     (case py_gt unbuilt_overview_count 0 of
        Inl e \<Rightarrow> (Inl e, self, s)
      | Inr positive \<Rightarrow>
          if positive \<and> retry_count < max_retries then
            (case delete_bad_overviews A self s of
               (Inl e, s1) \<Rightarrow> (Inl e, self, s1)
             | (Inr _, s1) \<Rightarrow>
                 (case call_method ns ''build_overviews'' A self s1 of
                    (Inl e, self2, s2) \<Rightarrow> (Inl e, self2, s2)
                  | (Inr c, self2, s2) \<Rightarrow>
                      robust_while ns A max_retries (retry_count + 1) c self2 s2))
          else (Inr unbuilt_overview_count, self, s))"
  by pat_completeness auto
termination
  by (relation "measure (\<lambda>(ns, A, max_retries, retry_count, c, self, s). nat (max_retries - retry_count))")
     auto

definition build_overviews_robust ::
  "(string \<rightharpoonup> 'w pymethod) \<Rightarrow> 'w arcpy \<Rightarrow> MosaicDataset \<Rightarrow> int \<Rightarrow> 'w session
     \<Rightarrow> (exn + unit) \<times> MosaicDataset \<times> 'w session" where
  "build_overviews_robust ns A self max_retries s =
     (case call_method ns ''build_overviews'' A self s of
        (Inl e, self1, s1) \<Rightarrow> (Inl e, self1, s1)
      | (Inr c, self1, s1) \<Rightarrow>
          (case robust_while ns A max_retries 1 c self1 s1 of
             (Inl e, self2, s2) \<Rightarrow> (Inl e, self2, s2)
           | (Inr unbuilt_overview_count, self2, s2) \<Rightarrow>
               (case py_gt unbuilt_overview_count 0 of
                  Inl e \<Rightarrow> (Inl e, self2, s2)
                | Inr positive \<Rightarrow>
                    if positive then
                      (Inl ExecuteError, self2,
                       emit (AddError ''Overviews failed to build correctly. Exiting...'') s2)
                    else (Inr (), self2, s2))))"

section \<open>A small catalogue to run the wrappers on\<close>

text \<open>
  One instance of the toolkit, for evaluating the wrappers on concrete inputs: the state lists
  the datasets that exist and those a deletion request leaves in place (locked ones), the
  number of overview builds made so far, the count of unbuilt overviews found before any
  build and after each one, and the rows of bad overview paths. Its uniqueness answer is
  the workspace joined with the proposed name.
\<close>

record catalog =
  datasets :: "string list"
  locked :: "string list"
  builds :: nat
  unbuilt :: "int list"
  bad_paths :: "string list"

definition catalog_arcpy :: "catalog arcpy" where
  "catalog_arcpy =
     \<lparr>Exists = (\<lambda>p w. p \<in> set (datasets w)),
      Delete_management =
        (\<lambda>p w. if p \<in> set (locked w) then w else w\<lparr>datasets := removeAll p (datasets w)\<rparr>),
      CreateUniqueName = (\<lambda>n ws w. os_path_join ws n),
      env_scratchGDB = ''scratch.gdb'',
      env_scratchFolder = ''scratch'',
      BuildOverviews_management = (\<lambda>p opts w. w\<lparr>builds := Suc (builds w)\<rparr>),
      MakeMosaicLayer_management =
        (\<lambda>m l w. w\<lparr>datasets := l # os_path_join l ''Footprint'' # datasets w\<rparr>),
      MakeFeatureLayer_management = (\<lambda>i l c w. w\<lparr>datasets := l # datasets w\<rparr>),
      SelectLayerByAttribute_management = (\<lambda>p t c w. w),
      GetCount_management =
        (\<lambda>p w. if builds w < length (unbuilt w) then unbuilt w ! builds w else 0),
      ExportMosaicDatasetPaths_management = (\<lambda>i out opts w. w\<lparr>datasets := out # datasets w\<rparr>),
      DeleteIdentical_management = (\<lambda>p f w. w),
      da_SearchCursor = (\<lambda>p f w. bad_paths w),
      da_UpdateCursor = (\<lambda>p args w. PyObject ''UpdateCursor'')\<rparr>"

definition start :: "catalog \<Rightarrow> catalog session" where
  "start w = \<lparr>world = w, trace = []\<rparr>"


definition empty_catalog :: catalog where
  "empty_catalog = \<lparr>datasets = [], locked = [], builds = 0, unbuilt = [], bad_paths = []\<rparr>"

text \<open>Catalogues and handles used as concrete inputs.\<close>

definition single_catalog :: "string \<Rightarrow> catalog" where
  "single_catalog p = empty_catalog\<lparr>datasets := [p]\<rparr>"

definition locked_catalog :: "string \<Rightarrow> catalog" where
  "locked_catalog p = empty_catalog\<lparr>datasets := [p], locked := [p]\<rparr>"


definition overview_catalog :: "int list \<Rightarrow> catalog" where
  "overview_catalog cs = empty_catalog\<lparr>unbuilt := 9 # cs\<rparr>"

definition sample_table :: Table where
  "sample_table = \<lparr>Table.geodatabase_name = ''gdb'', table_name = ''T'', full_name = ''gdb/T'',
                    temp_table = True\<rparr>"



definition sample_dataset :: MosaicDataset where
  "sample_dataset = \<lparr>temp_mosaic = False, mosaic_layer = None, geodatabase_name = ''gdb'',
                      mosaic_name = ''M'', full_name = ''gdb/M''\<rparr>"

text \<open>
  The class namespace as it would be with the first \<^verbatim>\<open>def build_overviews\<close> alone.
\<close>

definition first_def_namespace :: "string \<rightharpoonup> 'w pymethod" where
  "first_def_namespace = [''build_overviews'' \<mapsto> build_overviews_1183]"

text \<open>
  The catalogue once the mosaic layer exists and \<open>k\<close> builds have run, the layer object
  \<^verbatim>\<open>create_layer\<close> makes for the sample dataset, and the unbuilt count the catalogue
  reports after \<open>k\<close> builds.
\<close>

definition layer_catalog :: "nat \<Rightarrow> int list \<Rightarrow> catalog" where
  "layer_catalog k cs =
     \<lparr>datasets = [''M_Layer'', ''M_Layer/Footprint''], locked = [], builds = k, unbuilt = cs,
      bad_paths = []\<rparr>"

definition sample_layer :: MosaicLayer where
  "sample_layer =
     \<lparr>MosaicLayer.layer_name = ''M_Layer'',
      feature_layer =
        \<lparr>base = \<lparr>Table.geodatabase_name = ''M_Layer'', table_name = ''Footprint'',
                  full_name = ''M_Layer/Footprint'', temp_table = False\<rparr>,
         layer_name = ''M_Layer/Footprint''\<rparr>\<rparr>"

definition unbuilt_at :: "nat \<Rightarrow> int list \<Rightarrow> int" where
  "unbuilt_at k cs = (if k < length cs then cs ! k else 0)"

section \<open>Properties of the path functions\<close>

lemma takeWhile_no_sep: "sep \<notin> set n \<Longrightarrow> takeWhile (\<lambda>x. x \<noteq> sep) (rev n) = rev n"
  by (rule takeWhile_eq_all_conv [THEN iffD2]) auto

lemma dropWhile_no_sep: "sep \<notin> set n \<Longrightarrow> dropWhile (\<lambda>x. x \<noteq> sep) (rev n) = []"
  by (rule dropWhile_eq_Nil_conv [THEN iffD2]) auto

lemma basename_plain: "sep \<notin> set n \<Longrightarrow> os_path_basename n = n"
  by (simp add: os_path_basename_def takeWhile_no_sep)

lemma dirname_plain: "sep \<notin> set n \<Longrightarrow> os_path_dirname n = []"
  by (simp add: os_path_dirname_def dropWhile_no_sep)

lemma basename_join: "sep \<notin> set n \<Longrightarrow> os_path_basename (c @ sep # n) = n"
proof -
  assume n: "sep \<notin> set n"
  have "takeWhile (\<lambda>x. x \<noteq> sep) (rev n @ sep # rev c) = rev n"
    by (subst takeWhile_append2) (use n in auto)
  then show ?thesis by (simp add: os_path_basename_def)
qed

lemma dirname_join:
  assumes n: "sep \<notin> set n" and c: "sep \<notin> set c" and ne: "c \<noteq> []"
  shows "os_path_dirname (c @ sep # n) = c"
proof -
  have d: "dropWhile (\<lambda>x. x \<noteq> sep) (rev n @ sep # rev c) = sep # rev c"
    using n by (simp add: dropWhile_append)
  have h: "c @ [sep] \<noteq> replicate (length (c @ [sep])) sep"
  proof
    assume "c @ [sep] = replicate (length (c @ [sep])) sep"
    then have "set (c @ [sep]) \<subseteq> {sep}"
      by (metis set_replicate_conv_if empty_subsetI subset_refl)
    with c ne show False by (cases c) auto
  qed
  have r: "rstrip sep (c @ [sep]) = c"
  proof -
    have "dropWhile (\<lambda>x. x = sep) (rev c) = rev c"
      using c ne by (cases "rev c") auto
    then show ?thesis by (simp add: rstrip_def)
  qed
  show ?thesis using d h r by (simp add: os_path_dirname_def Let_def)
qed

lemma join_plain:
  "sep \<notin> set n \<Longrightarrow> sep \<notin> set c \<Longrightarrow> c \<noteq> [] \<Longrightarrow> os_path_join c n = c @ sep # n"
  by (cases n; cases c rule: rev_cases) (auto simp: os_path_join_def)

section \<open>Name resolution: round trip and explicit names\<close>

text \<open>
  C8. Name resolution round-trips with path formation. For a container and a name without
  a path separator, the full path is the name alone when the container is empty and their
  join otherwise; decoding that full path with no explicit name gives back the container,
  the name and the same full path, and so does non-temporary resolution, whatever default
  container and sanitising map it is given.
\<close>

theorem decode_names_round_trip:
  assumes "sep \<notin> set container" and "sep \<notin> set name"
  shows "decode_names (if container = [] then name else os_path_join container name) None
           = (container, name, if container = [] then name else os_path_join container name)
         \<and> fst (initialize_names A (if container = [] then name else os_path_join container name)
                  None False scratch replacechars s)
           = (container, name, if container = [] then name else os_path_join container name)"
  using assms
  by (simp add: decode_names_def initialize_names_def Let_def basename_plain dirname_plain
        join_plain basename_join dirname_join)

theorem decode_names_round_trip_witness:
  "sep \<notin> set ''gdb'' \<and> sep \<notin> set ''MyTable'' \<and>
   decode_names ''gdb/MyTable'' None = (''gdb'', ''MyTable'', ''gdb/MyTable'')"
  using decode_names_round_trip [of "''gdb''" "''MyTable''" catalog_arcpy None None
          "start empty_catalog"]
  by (simp add: sep_def os_path_join_def)



section \<open>The elapsed-time formatter\<close>






section \<open>Deletion, scope exit and construction of temporary resources\<close>

lemmas session_ops = emit_def run_tool_def arcpy_Exists_def arcpy_Delete_management_def
  output_msg_def log_def std_out_def

lemma Table_delete_cases:
  "Table_delete A self s =
     (if \<not> Exists A (Table.full_name self) (world s) then
        (True, s\<lparr>trace := trace s @ [Exists_call (Table.full_name self)]\<rparr>)
      else if Exists A (Table.full_name self) (Delete_management A (Table.full_name self) (world s)) then
        (False, \<lparr>world = Delete_management A (Table.full_name self) (world s),
                 trace = trace s @ [Exists_call (Table.full_name self),
                                    Delete_management_call (Table.full_name self),
                                    Exists_call (Table.full_name self),
                                    AddError (Table.full_name self @ '' cannot be deleted'')]\<rparr>)
      else
        (True, \<lparr>world = Delete_management A (Table.full_name self) (world s),
                trace = trace s @ [Exists_call (Table.full_name self),
                                   Delete_management_call (Table.full_name self),
                                   Exists_call (Table.full_name self),
                                   AddMessage (''Deleted: ['' @ Table.full_name self @ ''] ''),
                                   print_GetMessages]\<rparr>))"
  by (simp add: Table_delete_def Table_exists_def session_ops Let_def)

lemma Raster_delete_cases:
  "Raster_delete A self s =
     (if \<not> Exists A (Raster.full_name self) (world s) then
        (True, s\<lparr>trace := trace s @ [Exists_call (Raster.full_name self)]\<rparr>)
      else if Exists A (Raster.full_name self) (Delete_management A (Raster.full_name self) (world s)) then
        (False, \<lparr>world = Delete_management A (Raster.full_name self) (world s),
                 trace = trace s @ [Exists_call (Raster.full_name self),
                                    Delete_management_call (Raster.full_name self),
                                    Exists_call (Raster.full_name self),
                                    AddError (''Raster '' @ Raster.full_name self @ '' cannot be deleted'')]\<rparr>)
      else
        (True, \<lparr>world = Delete_management A (Raster.full_name self) (world s),
                trace = trace s @ [Exists_call (Raster.full_name self),
                                   Delete_management_call (Raster.full_name self),
                                   Exists_call (Raster.full_name self),
                                   AddMessage (''Deleted: ['' @ Raster.full_name self @ ''] ''),
                                   print_GetMessages]\<rparr>))"
  by (simp add: Raster_delete_def Raster_exists_def session_ops Let_def)

lemma MosaicDataset_delete_cases:
  "MosaicDataset_delete A self s =
     (if \<not> Exists A (MosaicDataset.full_name self) (world s) then
        (True, s\<lparr>trace := trace s @ [Exists_call (MosaicDataset.full_name self)]\<rparr>)
      else if Exists A (MosaicDataset.full_name self)
                (Delete_management A (MosaicDataset.full_name self) (world s)) then
        (False, \<lparr>world = Delete_management A (MosaicDataset.full_name self) (world s),
                 trace = trace s @ [Exists_call (MosaicDataset.full_name self),
                                    Delete_management_call (MosaicDataset.full_name self),
                                    Exists_call (MosaicDataset.full_name self),
                                    AddError (''Mosaic '' @ MosaicDataset.full_name self
                                                @ '' cannot be deleted'')]\<rparr>)
      else
        (True, \<lparr>world = Delete_management A (MosaicDataset.full_name self) (world s),
                trace = trace s @ [Exists_call (MosaicDataset.full_name self),
                                   Delete_management_call (MosaicDataset.full_name self),
                                   Exists_call (MosaicDataset.full_name self),
                                   AddMessage (''Deleted mosaic dataset: ['' @ MosaicDataset.full_name self
                                                 @ ''] ''),
                                   print_GetMessages]\<rparr>))"
  by (simp add: MosaicDataset_delete_def MosaicDataset_exists_def session_ops Let_def)

text \<open>After a delete() that returned success the path does not exist.\<close>

lemma Table_delete_success_absent:
  "fst (Table_delete A self s) \<Longrightarrow>
     \<not> Exists A (Table.full_name self) (world (snd (Table_delete A self s)))"
  by (simp add: Table_delete_cases split: if_splits)


lemma MosaicDataset_delete_success_absent:
  "fst (MosaicDataset_delete A self s) \<Longrightarrow>
     \<not> Exists A (MosaicDataset.full_name self) (world (snd (MosaicDataset_delete A self s)))"
  by (simp add: MosaicDataset_delete_cases split: if_splits)

lemma Table_delete_absent:
  "\<not> Exists A (Table.full_name self) (world s) \<Longrightarrow>
     Table_delete A self s = (True, emit (Exists_call (Table.full_name self)) s)"
  by (simp add: Table_delete_cases emit_def)






text \<open>
  C3, as amended. \<^verbatim>\<open>delete()\<close> on the resolved full path \<open>p\<close>: when \<open>p\<close> does not exist it
  returns success after the existence query alone, with no deletion request and the
  toolkit state unchanged; when \<open>p\<close> exists it requests the deletion and queries again,
  returning failure with an error message (no exception) when \<open>p\<close> is still there, and
  success with an informational message otherwise. Whenever a call has returned success,
  a second call in succession returns success as well, requests no deletion and leaves the
  toolkit state as the first call left it.
\<close>

theorem delete_idempotent_after_success:
  assumes "Table.full_name self = p"
  shows
    "(\<not> Exists A p (world s) \<longrightarrow>
        Table_delete A self s = (True, s\<lparr>trace := trace s @ [Exists_call p]\<rparr>))
     \<and> (Exists A p (world s) \<and> Exists A p (Delete_management A p (world s)) \<longrightarrow>
        Table_delete A self s =
          (False, \<lparr>world = Delete_management A p (world s),
                   trace = trace s @ [Exists_call p, Delete_management_call p, Exists_call p,
                                      AddError (p @ '' cannot be deleted'')]\<rparr>))
     \<and> (Exists A p (world s) \<and> \<not> Exists A p (Delete_management A p (world s)) \<longrightarrow>
        Table_delete A self s =
          (True, \<lparr>world = Delete_management A p (world s),
                  trace = trace s @ [Exists_call p, Delete_management_call p, Exists_call p,
                                     AddMessage (''Deleted: ['' @ p @ ''] ''), print_GetMessages]\<rparr>))
     \<and> (fst (Table_delete A self s) \<longrightarrow>
        Table_delete A self (snd (Table_delete A self s))
          = (True, (snd (Table_delete A self s))
                     \<lparr>trace := trace (snd (Table_delete A self s)) @ [Exists_call p]\<rparr>))"
  using Table_delete_success_absent [of A self s] assms
  by (simp add: Table_delete_absent emit_def) (simp add: Table_delete_cases)


lemmas catalog_simps = catalog_arcpy_def start_def empty_catalog_def locked_catalog_def
  single_catalog_def sample_table_def

theorem delete_idempotent_after_success_witness:
  "Table.full_name sample_table = ''gdb/T''
   \<and> Exists catalog_arcpy ''gdb/T'' (world (start (single_catalog ''gdb/T'')))
   \<and> \<not> Exists catalog_arcpy ''gdb/T''
          (Delete_management catalog_arcpy ''gdb/T'' (world (start (single_catalog ''gdb/T''))))
   \<and> fst (Table_delete catalog_arcpy sample_table (start (single_catalog ''gdb/T'')))
   \<and> fst (Table_delete catalog_arcpy sample_table
            (snd (Table_delete catalog_arcpy sample_table (start (single_catalog ''gdb/T'')))))
   \<and> world (snd (Table_delete catalog_arcpy sample_table
            (snd (Table_delete catalog_arcpy sample_table (start (single_catalog ''gdb/T''))))))
       = world (snd (Table_delete catalog_arcpy sample_table (start (single_catalog ''gdb/T''))))"
  using delete_idempotent_after_success [of sample_table "''gdb/T''" catalog_arcpy
          "start (single_catalog ''gdb/T'')"]
  by (simp add: catalog_simps Table_delete_cases)

text \<open>
  The claim as stated, "twice in succession returns success both times", fails when the
  toolkit leaves the dataset in place: both calls return failure.
\<close>

theorem delete_twice_locked_counterexample:
  "fst (Table_delete catalog_arcpy sample_table (start (locked_catalog ''gdb/T''))) = False
   \<and> fst (Table_delete catalog_arcpy sample_table
            (snd (Table_delete catalog_arcpy sample_table (start (locked_catalog ''gdb/T''))))) = False"
  by (simp add: Table_delete_cases catalog_simps)















text \<open>Construction of a temporary resource.\<close>

lemma Table_init_temporary_clean:
  "Table_init A g t True s = (Inr h, s') \<Longrightarrow> \<not> Exists A (Table.full_name h) (world s')"
  apply (simp add: Table_init_def Let_def split: prod.splits if_splits)
  using Table_delete_success_absent
  apply (metis fst_conv snd_conv)
  done

lemma MosaicDataset_init_temporary_clean:
  "MosaicDataset_init A g t True s = (Inr h, s') \<Longrightarrow>
     \<not> Exists A (MosaicDataset.full_name h) (world s')"
  apply (simp add: MosaicDataset_init_def Let_def split: prod.splits if_splits)
  using MosaicDataset_delete_success_absent
  apply (metis fst_conv snd_conv)
  done

lemma Raster_init_never_raises: "\<exists>h. fst (Raster_init A g t b s) = Inr h"
  by (simp add: Raster_init_def Let_def split: prod.splits)

text \<open>
  C2. A temporary \<^verbatim>\<open>Raster\<close> constructed over a path that exists and that the toolkit
  does not delete: \<^verbatim>\<open>delete()\<close> reports the failure, and the constructor still returns
  the handle, with the path still existing. \<^verbatim>\<open>Table\<close> and \<^verbatim>\<open>MosaicDataset\<close> on the same
  kind of input raise \<^verbatim>\<open>ExecuteError\<close>, as the claim says every kind does.
\<close>

theorem Raster_init_keeps_undeleted_path:
  "fst (Raster_init catalog_arcpy ''r'' None True (start (locked_catalog ''scratch/r'')))
     = Inr \<lparr>Raster.geodatabase_name = ''scratch'', raster_name = ''r'', full_name = ''scratch/r'',
            temp_raster = True\<rparr>
   \<and> Exists catalog_arcpy ''scratch/r''
        (world (snd (Raster_init catalog_arcpy ''r'' None True (start (locked_catalog ''scratch/r'')))))
   \<and> AddError ''Raster scratch/r cannot be deleted''
        \<in> set (trace (snd (Raster_init catalog_arcpy ''r'' None True
                              (start (locked_catalog ''scratch/r'')))))
   \<and> fst (Table_init catalog_arcpy ''r'' None True (start (locked_catalog ''scratch.gdb/r'')))
       = Inl ExecuteError
   \<and> fst (MosaicDataset_init catalog_arcpy ''r'' None True (start (locked_catalog ''scratch.gdb/r'')))
       = Inl ExecuteError"
  by (simp add: Raster_init_def Table_init_def MosaicDataset_init_def initialize_names_def
        decode_names_def os_path_dirname_def os_path_basename_def os_path_join_def sep_def
        rstrip_def parse_table_name_def replace_list_def arcpy_CreateUniqueName_def
        Raster_delete_cases Table_delete_cases MosaicDataset_delete_cases catalog_simps emit_def
        Let_def)

section \<open>Name resolution: the temporary branch and sanitisation\<close>

lemma parse_table_name_append:
  "parse_table_name (xs @ ys) (Some d) = parse_table_name xs (Some d) @ parse_table_name ys (Some d)"
  by (simp add: parse_table_name_def)

text \<open>
  C7. Resolution with the temporary flag on. With \<open>(c, n, f)\<close> the triple decoded from the
  input, the uniqueness service is asked exactly once, for the sanitised \<open>n\<close> inside the
  container that is the default (the supplied scratch container, or the environment's when
  none is supplied) when \<open>c\<close> is empty and \<open>c\<close> itself otherwise; the resulting triple is
  decoded afresh from the service's answer, and nothing else in the session changes.
\<close>

theorem temporary_resolution:
  assumes "decode_names locator explicit_name = (c, n, f)"
  shows "initialize_names A locator explicit_name True scratch replacechars s =
           (decode_names
              (CreateUniqueName A (parse_table_name n replacechars)
                 (if c = [] then (case scratch of None \<Rightarrow> env_scratchGDB A | Some d \<Rightarrow> d) else c)
                 (world s))
              None,
            s\<lparr>trace := trace s @
                 [CreateUniqueName_call (parse_table_name n replacechars)
                    (if c = [] then (case scratch of None \<Rightarrow> env_scratchGDB A | Some d \<Rightarrow> d)
                     else c)]\<rparr>)"
  using assms by (simp add: initialize_names_def arcpy_CreateUniqueName_def emit_def Let_def)

theorem temporary_resolution_witness:
  "decode_names ''My Table.v2'' None = ([], ''My Table.v2'', ''My Table.v2'')
   \<and> initialize_names catalog_arcpy ''My Table.v2'' None True (Some ''scratch.gdb'')
         (Some replace_list) (start empty_catalog)
       = ((''scratch.gdb'', ''My_Tablev2'', ''scratch.gdb/My_Tablev2''),
          \<lparr>world = empty_catalog, trace = [CreateUniqueName_call ''My_Tablev2'' ''scratch.gdb'']\<rparr>)"
proof -
  have d: "decode_names ''My Table.v2'' None = ([], ''My Table.v2'', ''My Table.v2'')"
    by (simp add: decode_names_def os_path_dirname_def os_path_basename_def sep_def)
  show ?thesis
    using d temporary_resolution [OF d, of catalog_arcpy "Some ''scratch.gdb''" "Some replace_list"
            "start empty_catalog"]
    by (simp add: parse_table_name_def replace_list_def catalog_arcpy_def start_def
          decode_names_def os_path_dirname_def os_path_basename_def os_path_join_def sep_def
          rstrip_def)
qed

text \<open>
  C5, as amended. With a sanitising map supplied, sanitisation replaces every character of
  the name that is a key of the map by its mapped value and keeps every other character. It
  is applied to a non-empty explicit name on the non-temporary path, where the container is
  the locator unchanged, and on the temporary path to the decoded name (explicit or derived)
  that is handed to the uniqueness service, whose container argument is not sanitised. On
  the non-temporary path a name derived from a bare locator is decoded and not sanitised.
  The explicit name \<^verbatim>\<open>"a b.c"\<close> with the map space to underscore, period to nothing,
  resolves to the name \<^verbatim>\<open>"a_bc"\<close>.
\<close>

theorem sanitization_where_applied:
  "(d ch = Some v \<longrightarrow>
      parse_table_name (xs @ ch # ys) (Some d)
        = parse_table_name xs (Some d) @ v @ parse_table_name ys (Some d))
   \<and> (d ch = None \<longrightarrow>
      parse_table_name (xs @ ch # ys) (Some d)
        = parse_table_name xs (Some d) @ ch # parse_table_name ys (Some d))
   \<and> (name \<noteq> [] \<longrightarrow>
      fst (initialize_names A locator (Some name) False scratch (Some d) s)
        = (locator, parse_table_name name (Some d),
           if locator = [] then parse_table_name name (Some d)
           else os_path_join locator (parse_table_name name (Some d))))
   \<and> trace (snd (initialize_names A locator explicit_name True scratch (Some d) s))
       = trace s @
           [CreateUniqueName_call
              (parse_table_name (fst (snd (decode_names locator explicit_name))) (Some d))
              (if fst (decode_names locator explicit_name) = []
               then (case scratch of None \<Rightarrow> env_scratchGDB A | Some x \<Rightarrow> x)
               else fst (decode_names locator explicit_name))]
   \<and> initialize_names A locator None False scratch (Some d) s = (decode_names locator None, s)
   \<and> parse_table_name ''a b.c'' (Some [CHR '' '' \<mapsto> ''_'', CHR ''.'' \<mapsto> []]) = ''a_bc''
   \<and> fst (snd (fst (initialize_names A locator (Some ''a b.c'') False scratch
                       (Some [CHR '' '' \<mapsto> ''_'', CHR ''.'' \<mapsto> []]) s))) = ''a_bc''"
proof (intro conjI impI)
  show "trace (snd (initialize_names A locator explicit_name True scratch (Some d) s))
       = trace s @
           [CreateUniqueName_call
              (parse_table_name (fst (snd (decode_names locator explicit_name))) (Some d))
              (if fst (decode_names locator explicit_name) = []
               then (case scratch of None \<Rightarrow> env_scratchGDB A | Some x \<Rightarrow> x)
               else fst (decode_names locator explicit_name))]"
    by (cases "decode_names locator explicit_name")
       (simp add: initialize_names_def arcpy_CreateUniqueName_def emit_def Let_def)
qed (simp_all add: parse_table_name_def initialize_names_def decode_names_def Let_def)

theorem sanitization_where_applied_witness:
  "replace_list (CHR '' '') = Some ''_'' \<and> replace_list (CHR ''x'') = None \<and> ''a b.c'' \<noteq> []
   \<and> parse_table_name (''a'' @ CHR '' '' # ''b.c'') (Some replace_list) = ''a_bc''
   \<and> parse_table_name (''a'' @ CHR ''x'' # ''b.c'') (Some replace_list) = ''axbc''
   \<and> fst (initialize_names catalog_arcpy ''gdb dir'' (Some ''a b.c'') False None
            (Some replace_list) (start empty_catalog))
       = (''gdb dir'', ''a_bc'', ''gdb dir/a_bc'')"
  using sanitization_where_applied [where d = replace_list and ch = "CHR '' ''" and v = "''_''"
          and xs = "''a''" and ys = "''b.c''" and name = "''a b.c''" and A = catalog_arcpy
          and locator = "''gdb dir''" and scratch = None and s = "start empty_catalog"]
        sanitization_where_applied [where d = replace_list and ch = "CHR ''x''"
          and xs = "''a''" and ys = "''b.c''"]
  by (simp add: replace_list_def parse_table_name_def os_path_join_def sep_def)

text \<open>
  The claim as stated, sanitisation "on every resolution path", fails on the non-temporary
  path for a name derived from a bare locator: the space, a key of the map, stays.
\<close>

theorem bare_locator_not_sanitized_counterexample:
  "fst (initialize_names catalog_arcpy ''a b.c'' None False None (Some replace_list)
          (start empty_catalog))
     = ([], ''a b.c'', ''a b.c'')
   \<and> replace_list (CHR '' '') = Some ''_'' \<and> CHR '' '' \<in> set ''a b.c''"
  by (simp add: initialize_names_def decode_names_def os_path_dirname_def os_path_basename_def
        sep_def replace_list_def)

section \<open>The update cursor\<close>

text \<open>
  C10. For all argument values bound to its parameters and every session,
  \<^verbatim>\<open>Table.update_cursor\<close> raises \<^verbatim>\<open>NameError\<close> for the name \<^verbatim>\<open>field_names\<close>, which is
  neither a parameter (the parameter is \<^verbatim>\<open>ufields\<close>) nor a module global nor a builtin;
  no cursor is returned and the session, toolkit state and trace, is unchanged.
\<close>

theorem update_cursor_raises_NameError:
  "update_cursor A self ufields where_clause spatial_reference explode_to_points sql_clause kwargs s
     = (Inl (NameError ''field_names''), s)"
  by (simp add: update_cursor_def load_name_def module_names_def builtin_names_def)

section \<open>The robust overview build\<close>

lemma namespace_binding: "MosaicDataset_namespace ''build_overviews'' = Some build_overviews_1202"
  by (simp add: MosaicDataset_namespace_def)

lemma build_overviews_returns_None:
  "fst (call_method MosaicDataset_namespace ''build_overviews'' A self s) = Inr PyNone"
  by (simp add: call_method_def namespace_binding build_overviews_1202_def Let_def)

lemma robust_while_None:
  "robust_while ns A n k PyNone self s
     = (Inl (TypeError ''> not supported between these instances''), self, s)"
  by (subst robust_while.simps) (simp add: py_gt_def)

lemma build_overviews_robust_always_TypeError:
  "build_overviews_robust MosaicDataset_namespace A self max_retries s
     = (Inl (TypeError ''> not supported between these instances''), self,
        output_msg (''Built overviews on mosaic dataset '' @ MosaicDataset.full_name self)
          (run_tool (BuildOverviews_management_call (MosaicDataset.full_name self) [])
             (BuildOverviews_management A (MosaicDataset.full_name self) []) s))"
  by (simp add: build_overviews_robust_def call_method_def namespace_binding
        build_overviews_1202_def Let_def robust_while_None del: robust_while.simps)

text \<open>
  C1. \<^verbatim>\<open>build_overviews_robust\<close> on the class as it is written. The name
  \<^verbatim>\<open>build_overviews\<close> is bound to the second definition, which returns \<^verbatim>\<open>None\<close>, so the
  first evaluation of \<^verbatim>\<open>unbuilt_overview_count > 0\<close> raises \<^verbatim>\<open>TypeError\<close>: with the
  unbuilt counts 5, 2, 0 and \<^verbatim>\<open>max_retries=3\<close>, and with 5, 3, 2 and \<^verbatim>\<open>max_retries=2\<close>,
  the call raises after one build, where the claim has a normal return after three builds
  and the exhaustion error after two.
\<close>

theorem build_overviews_robust_raises_TypeError:
  "fst (build_overviews_robust MosaicDataset_namespace catalog_arcpy sample_dataset 3
          (start (overview_catalog [5, 2, 0])))
     = Inl (TypeError ''> not supported between these instances'')
   \<and> builds (world (snd (snd (build_overviews_robust MosaicDataset_namespace catalog_arcpy
                                 sample_dataset 3 (start (overview_catalog [5, 2, 0])))))) = 1
   \<and> fst (build_overviews_robust MosaicDataset_namespace catalog_arcpy sample_dataset 2
          (start (overview_catalog [5, 3, 2])))
     = Inl (TypeError ''> not supported between these instances'')
   \<and> builds (world (snd (snd (build_overviews_robust MosaicDataset_namespace catalog_arcpy
                                 sample_dataset 2 (start (overview_catalog [5, 3, 2])))))) = 1"
  by (simp add: build_overviews_robust_always_TypeError run_tool_def emit_def output_msg_def
        log_def std_out_def catalog_arcpy_def start_def overview_catalog_def empty_catalog_def
        sample_dataset_def)

subsection \<open>The first definition alone\<close>

text \<open>
  With the namespace holding the first \<^verbatim>\<open>def build_overviews\<close> only, the loop does what
  the specification describes: on the unbuilt counts 5, 2, 0 with \<^verbatim>\<open>max_retries=3\<close> it
  returns after three builds, and on 5, 3, 2 with \<^verbatim>\<open>max_retries=2\<close> it raises
  \<^verbatim>\<open>ExecuteError\<close> after two.
\<close>

lemmas tool_eval = run_tool_def emit_def output_msg_def log_def std_out_def arcpy_Exists_def
  arcpy_Delete_management_def arcpy_CreateUniqueName_def arcpy_da_SearchCursor_def

lemma select_count:
  "MosaicLayer_select_by_attribute catalog_arcpy sample_layer a b s
     = (unbuilt_at (builds (world s)) (unbuilt (world s)),
        s\<lparr>trace := trace s @
             [SelectLayerByAttribute_management_call ''M_Layer/Footprint'' a b,
              AddMessage ''SelectLayerByAttribute called on M_Layer/Footprint'',
              print_GetMessages, GetCount_management_call ''M_Layer/Footprint'']\<rparr>)"
  by (simp add: MosaicLayer_select_by_attribute_def FeatureLayer_select_by_attribute_def
        FeatureLayer_get_count_def tool_eval catalog_arcpy_def sample_layer_def unbuilt_at_def
        Let_def del: str_nat.simps)


lemma catalog_build: "BuildOverviews_management catalog_arcpy p opts w = w\<lparr>builds := Suc (builds w)\<rparr>"
  by (simp add: catalog_arcpy_def)

lemma next_build:
  "\<exists>tr'. build_overviews_1183 catalog_arcpy (sample_dataset\<lparr>mosaic_layer := Some sample_layer\<rparr>)
            \<lparr>world = layer_catalog k cs, trace = tr\<rparr>
         = (Inr (PyInt (unbuilt_at (Suc k) cs)), sample_dataset\<lparr>mosaic_layer := Some sample_layer\<rparr>,
            \<lparr>world = layer_catalog (Suc k) cs, trace = tr'\<rparr>)"
  by (simp add: build_overviews_1183_def create_layer_def select_count tool_eval
        catalog_build layer_catalog_def Let_def del: str_nat.simps)


lemmas path_eval = decode_names_def os_path_dirname_def os_path_basename_def os_path_join_def
  sep_def rstrip_def parse_table_name_def replace_list_def

lemma create_first:
  "create_layer catalog_arcpy sample_dataset \<lparr>world = empty_catalog\<lparr>unbuilt := cs\<rparr>, trace = tr\<rparr>
     = (Inr sample_layer, sample_dataset\<lparr>mosaic_layer := Some sample_layer\<rparr>,
        \<lparr>world = layer_catalog 0 cs,
         trace = tr @ [MakeMosaicLayer_management_call ''gdb/M'' ''M_Layer'',
                       Exists_call ''M_Layer/Footprint'']\<rparr>)"
  by (simp add: create_layer_def MosaicLayer_init_def FeatureLayer_init_def FeatureClass_init_def
        Table_init_def initialize_names_def Table_exists_def path_eval tool_eval
        catalog_arcpy_def empty_catalog_def sample_dataset_def sample_layer_def
        layer_catalog_def Let_def)

lemma first_build:
  "\<exists>tr'. build_overviews_1183 catalog_arcpy sample_dataset
            \<lparr>world = empty_catalog\<lparr>unbuilt := cs\<rparr>, trace = tr\<rparr>
         = (Inr (PyInt (unbuilt_at 1 cs)), sample_dataset\<lparr>mosaic_layer := Some sample_layer\<rparr>,
            \<lparr>world = layer_catalog 1 cs, trace = tr'\<rparr>)"
  by (simp add: build_overviews_1183_def create_first select_count tool_eval
        catalog_build layer_catalog_def Let_def del: str_nat.simps)

lemma cleanup:
  "\<exists>tr'. delete_bad_overviews catalog_arcpy self \<lparr>world = layer_catalog k cs, trace = tr\<rparr>
         = (Inr (), \<lparr>world = layer_catalog k cs, trace = tr'\<rparr>)"
  by (simp add: delete_bad_overviews_def TempFeatureClass_init_def TempFeatureClass_exit_def
        FeatureClass_init_def FeatureClass_exit_def Table_init_def Table_delete_def
        Table_exists_def initialize_names_def export_paths_def delete_identical_def
        path_eval tool_eval catalog_arcpy_def layer_catalog_def Let_def del: str_nat.simps)

lemma first_binding: "first_def_namespace ''build_overviews'' = Some build_overviews_1183"
  by (simp add: first_def_namespace_def)

lemma builds_layer_catalog: "builds (layer_catalog k cs) = k"
  by (simp add: layer_catalog_def)

lemma loop_step:
  assumes "0 < c" and "k < n"
  shows "\<exists>tr'. robust_while first_def_namespace catalog_arcpy n k (PyInt c)
                 (sample_dataset\<lparr>mosaic_layer := Some sample_layer\<rparr>)
                 \<lparr>world = layer_catalog b cs, trace = tr\<rparr>
             = robust_while first_def_namespace catalog_arcpy n (k + 1)
                 (PyInt (unbuilt_at (Suc b) cs))
                 (sample_dataset\<lparr>mosaic_layer := Some sample_layer\<rparr>)
                 \<lparr>world = layer_catalog (Suc b) cs, trace = tr'\<rparr>"
proof -
  obtain tr1 where c: "delete_bad_overviews catalog_arcpy
        (sample_dataset\<lparr>mosaic_layer := Some sample_layer\<rparr>)
        \<lparr>world = layer_catalog b cs, trace = tr\<rparr>
      = (Inr (), \<lparr>world = layer_catalog b cs, trace = tr1\<rparr>)"
    using cleanup by blast
  obtain tr2 where b: "build_overviews_1183 catalog_arcpy
        (sample_dataset\<lparr>mosaic_layer := Some sample_layer\<rparr>)
        \<lparr>world = layer_catalog b cs, trace = tr1\<rparr>
      = (Inr (PyInt (unbuilt_at (Suc b) cs)), sample_dataset\<lparr>mosaic_layer := Some sample_layer\<rparr>,
         \<lparr>world = layer_catalog (Suc b) cs, trace = tr2\<rparr>)"
    using next_build by blast
  have "robust_while first_def_namespace catalog_arcpy n k (PyInt c)
                 (sample_dataset\<lparr>mosaic_layer := Some sample_layer\<rparr>)
                 \<lparr>world = layer_catalog b cs, trace = tr\<rparr>
             = robust_while first_def_namespace catalog_arcpy n (k + 1)
                 (PyInt (unbuilt_at (Suc b) cs))
                 (sample_dataset\<lparr>mosaic_layer := Some sample_layer\<rparr>)
                 \<lparr>world = layer_catalog (Suc b) cs, trace = tr2\<rparr>"
    using assms
    by (subst robust_while.simps)
       (simp add: py_gt_def c b call_method_def first_binding del: robust_while.simps)
  then show ?thesis by blast
qed

lemma loop_exit:
  "\<not> (0 < c \<and> k < n) \<Longrightarrow>
     robust_while ns A n k (PyInt c) self s = (Inr (PyInt c), self, s)"
  by (subst robust_while.simps) (auto simp: py_gt_def simp del: robust_while.simps)


lemma first_definition_returns_after_three_builds:
  "fst (build_overviews_robust first_def_namespace catalog_arcpy sample_dataset 3
          (start (overview_catalog [5, 2, 0]))) = Inr ()
   \<and> builds (world (snd (snd (build_overviews_robust first_def_namespace catalog_arcpy
                                 sample_dataset 3 (start (overview_catalog [5, 2, 0])))))) = 3"
proof -
  let ?D = "sample_dataset\<lparr>mosaic_layer := Some sample_layer\<rparr>"
  let ?cs = "[9, 5, 2, 0] :: int list"
  obtain t1 where b1:
    "build_overviews_1183 catalog_arcpy sample_dataset (start (overview_catalog [5, 2, 0]))
       = (Inr (PyInt 5), ?D, \<lparr>world = layer_catalog (Suc 0) ?cs, trace = t1\<rparr>)"
    using first_build [of ?cs "[]"] by (auto simp: start_def overview_catalog_def unbuilt_at_def)
  obtain t2 where s1:
    "robust_while first_def_namespace catalog_arcpy 3 1 (PyInt 5) ?D
        \<lparr>world = layer_catalog (Suc 0) ?cs, trace = t1\<rparr>
       = robust_while first_def_namespace catalog_arcpy 3 2 (PyInt 2) ?D
           \<lparr>world = layer_catalog 2 ?cs, trace = t2\<rparr>"
    using loop_step [of 5 1 3 1 ?cs t1]
    by (auto simp: unbuilt_at_def numeral_2_eq_2 simp del: robust_while.simps)
  obtain t3 where s2:
    "robust_while first_def_namespace catalog_arcpy 3 2 (PyInt 2) ?D
        \<lparr>world = layer_catalog 2 ?cs, trace = t2\<rparr>
       = robust_while first_def_namespace catalog_arcpy 3 3 (PyInt 0) ?D
           \<lparr>world = layer_catalog 3 ?cs, trace = t3\<rparr>"
    using loop_step [of 2 2 3 2 ?cs t2]
    by (auto simp: unbuilt_at_def numeral_3_eq_3 numeral_2_eq_2 simp del: robust_while.simps)
  have e: "robust_while first_def_namespace catalog_arcpy 3 3 (PyInt 0) ?D
        \<lparr>world = layer_catalog 3 ?cs, trace = t3\<rparr>
       = (Inr (PyInt 0), ?D, \<lparr>world = layer_catalog 3 ?cs, trace = t3\<rparr>)"
    by (rule loop_exit) simp
  show ?thesis
    by (simp add: build_overviews_robust_def call_method_def first_binding b1 s1 s2 e
          py_gt_def builds_layer_catalog del: robust_while.simps)
qed

lemma first_definition_raises_after_two_builds:
  "fst (build_overviews_robust first_def_namespace catalog_arcpy sample_dataset 2
          (start (overview_catalog [5, 3, 2]))) = Inl ExecuteError
   \<and> builds (world (snd (snd (build_overviews_robust first_def_namespace catalog_arcpy
                                 sample_dataset 2 (start (overview_catalog [5, 3, 2])))))) = 2"
proof -
  let ?D = "sample_dataset\<lparr>mosaic_layer := Some sample_layer\<rparr>"
  let ?cs = "[9, 5, 3, 2] :: int list"
  obtain t1 where b1:
    "build_overviews_1183 catalog_arcpy sample_dataset (start (overview_catalog [5, 3, 2]))
       = (Inr (PyInt 5), ?D, \<lparr>world = layer_catalog (Suc 0) ?cs, trace = t1\<rparr>)"
    using first_build [of ?cs "[]"] by (auto simp: start_def overview_catalog_def unbuilt_at_def)
  obtain t2 where s1:
    "robust_while first_def_namespace catalog_arcpy 2 1 (PyInt 5) ?D
        \<lparr>world = layer_catalog (Suc 0) ?cs, trace = t1\<rparr>
       = robust_while first_def_namespace catalog_arcpy 2 2 (PyInt 3) ?D
           \<lparr>world = layer_catalog 2 ?cs, trace = t2\<rparr>"
    using loop_step [of 5 1 2 1 ?cs t1]
    by (auto simp: unbuilt_at_def numeral_2_eq_2 simp del: robust_while.simps)
  have e: "robust_while first_def_namespace catalog_arcpy 2 2 (PyInt 3) ?D
        \<lparr>world = layer_catalog 2 ?cs, trace = t2\<rparr>
       = (Inr (PyInt 3), ?D, \<lparr>world = layer_catalog 2 ?cs, trace = t2\<rparr>)"
    by (rule loop_exit) simp
  show ?thesis
    by (simp add: build_overviews_robust_def call_method_def first_binding b1 s1 e
          py_gt_def builds_layer_catalog emit_def del: robust_while.simps)
qed

end
